theory Spec2Isabelle
  imports Main
begin

section \<open>Python values and strings\<close>

text \<open>
  The values stored in \<open>FinancialChatbot.fields\<close> are Python's \<open>None\<close>, a string, or a
  list of strings. A Python string is modelled as a \<open>string\<close> whose characters are read as
  the code points 0..255.
\<close>

datatype pyval = PyNone | PyStr string | PyList "string list"

datatype error = KeyError string | IndexError | AttributeError

text \<open>\<open>str.isspace\<close> on one code point below 256.\<close>

definition isspace :: "char \<Rightarrow> bool" where
  "isspace c =
     (let n = (of_char c :: nat)
      in (9 \<le> n \<and> n \<le> 13) \<or> (28 \<le> n \<and> n \<le> 32) \<or> n = 133 \<or> n = 160)"

text \<open>\<open>str.lower\<close> on one code point below 256.\<close>

definition lower_char :: "char \<Rightarrow> char" where
  "lower_char c =
     (let n = (of_char c :: nat)
      in if (65 \<le> n \<and> n \<le> 90) \<or> (192 \<le> n \<and> n \<le> 222 \<and> n \<noteq> 215)
         then char_of (n + 32) else c)"

definition str_lower :: "string \<Rightarrow> string" where
  "str_lower s = map lower_char s"

text \<open>\<open>s.strip()\<close>: leading and trailing whitespace removed.\<close>

definition str_strip :: "string \<Rightarrow> string" where
  "str_strip s = rev (dropWhile isspace (rev (dropWhile isspace s)))"

text \<open>
  \<open>s.split()\<close>: the maximal runs of non-whitespace characters, in order; \<open>w\<close> is the run
  being read.
\<close>

fun split_from :: "string \<Rightarrow> string \<Rightarrow> string list" where
  "split_from w [] = (if w = [] then [] else [w])"
| "split_from w (c # cs) =
     (if isspace c then (if w = [] then split_from [] cs else w # split_from [] cs)
      else split_from (w @ [c]) cs)"

definition str_split :: "string \<Rightarrow> string list" where
  "str_split s = split_from [] s"

text \<open>\<open>sep.join(xs)\<close>.\<close>

fun str_join :: "string \<Rightarrow> string list \<Rightarrow> string" where
  "str_join sep [] = []"
| "str_join sep [x] = x"
| "str_join sep (x # y # ys) = x @ sep @ str_join sep (y # ys)"

section \<open>The chatbot object\<close>

text \<open>
  \<open>fields_dict\<close> is the attribute \<open>fields\<close> of \<open>FinancialChatbot\<close> and
  \<open>current_index\<close> its attribute of that name.
  \<open>csv_calls\<close> is the trace of the calls of \<open>save_to_csv\<close>: the dictionary each call was
  asked to append to \<open>responses.csv\<close>. Whether the write itself succeeds is not modelled;
  \<open>save_to_csv\<close> catches every exception of the write.
\<close>

record chatbot =
  fields_dict :: "string \<rightharpoonup> pyval"
  current_index :: nat
  csv_calls :: "(string \<rightharpoonup> pyval) list"

definition init_fields :: "string \<rightharpoonup> pyval" where
  "init_fields = map_of
     [(''loan_amount'', PyNone),
      (''promotion_applied'', PyNone),
      (''loan_purpose'', PyNone),
      (''how_heard'', PyNone),
      (''first_name'', PyNone),
      (''last_name'', PyNone),
      (''membership_status'', PyNone),
      (''account_number'', PyNone),
      (''telephone'', PyNone),
      (''email'', PyNone),
      (''date_of_birth'', PyNone),
      (''marital_status'', PyNone),
      (''whatsapp_opt_in'', PyNone),
      (''employer_name'', PyNone),
      (''self_employed'', PyNone),
      (''primary_income'', PyNone),
      (''additional_income'', PyNone),
      (''total_income'', PyNone),
      (''commitments'', PyList []),
      (''declaration'', PyNone),
      (''uploaded_ids'', PyList []),
      (''uploaded_documents'', PyList []),
      (''reference1_name'', PyNone),
      (''reference1_relation'', PyNone),
      (''reference1_address'', PyNone),
      (''reference1_contact'', PyNone),
      (''reference1_occupation'', PyNone),
      (''reference2_name'', PyNone),
      (''reference2_relation'', PyNone),
      (''reference2_address'', PyNone),
      (''reference2_contact'', PyNone),
      (''reference2_occupation'', PyNone)]"

definition conversation_order :: "string list" where
  "conversation_order =
     [''first_name'', ''last_name'', ''telephone'', ''email'', ''date_of_birth'',
      ''loan_amount'', ''loan_purpose'', ''membership_status'',
      ''marital_status'', ''employer_name'', ''self_employed'',
      ''primary_income'', ''additional_income'',
      ''reference1_name'', ''reference1_relation'', ''reference1_contact'',
      ''reference2_name'', ''reference2_relation'', ''reference2_contact'',
      ''declaration'', ''whatsapp_opt_in'']"

text \<open>\<open>__init__\<close>; the CSV trace starts empty.\<close>

definition init :: chatbot where
  "init = \<lparr>fields_dict = init_fields, current_index = 0, csv_calls = []\<rparr>"

section \<open>Extraction\<close>

text \<open>
  The call of \<open>openai.ChatCompletion.create\<close> and the reading of
  \<open>response.choices[0].message['content']\<close> are outside the program: given the field and
  the user's text they either raise or give the content of the reply.
\<close>

datatype api_result = ApiRaises | ApiContent string

type_synonym api = "string \<Rightarrow> string \<Rightarrow> api_result"

definition extract_details :: "api \<Rightarrow> string \<Rightarrow> string \<Rightarrow> pyval" where
  "extract_details openai field user_input =
     (case openai field user_input of
        ApiRaises \<Rightarrow> PyNone
      | ApiContent content \<Rightarrow>
          (let extracted_value = str_strip content
           in if str_lower extracted_value \<noteq> ''none'' then PyStr extracted_value else PyNone))"

text \<open>
  Python's truth value of an object, as \<open>if extracted_value:\<close> tests it: \<open>None\<close>, the
  empty string and the empty list are false.
\<close>

definition truthy :: "pyval \<Rightarrow> bool" where
  "truthy v = (case v of PyNone \<Rightarrow> False | PyStr x \<Rightarrow> x \<noteq> [] | PyList xs \<Rightarrow> xs \<noteq> [])"

section \<open>The methods\<close>

text \<open>
  Every method takes the object and returns its result with the object as the method
  leaves it; a result \<open>Inl e\<close> is the exception the method raises.
\<close>

fun scan_fields :: "(string \<rightharpoonup> pyval) \<Rightarrow> string list \<Rightarrow> error + string option" where
  "scan_fields fs [] = Inr None"
| "scan_fields fs (field # rest) =
     (case fs field of
        None \<Rightarrow> Inl (KeyError field)
      | Some v \<Rightarrow> if v = PyNone then Inr (Some field) else scan_fields fs rest)"

definition get_next_missing_field :: "chatbot \<Rightarrow> (error + string option) \<times> chatbot" where
  "get_next_missing_field self =
     (scan_fields (fields_dict self) (drop (current_index self) conversation_order), self)"

definition questions :: "(string \<times> string) list" where
  "questions =
     [(''first_name'', ''Could you please tell me your first name?''),
      (''last_name'', ''What is your last name?''),
      (''telephone'', ''What is the best contact number to reach you?''),
      (''email'', ''What is your email address?''),
      (''date_of_birth'', ''When were you born? (Please provide in DD/MM/YYYY format)''),
      (''loan_amount'', ''What loan amount are you looking for and its purpose?''),
      (''loan_purpose'', ''Could you elaborate on the purpose of your loan?''),
      (''membership_status'', ''Are you currently a member of our program?''),
      (''marital_status'', ''What is your marital status?''),
      (''employer_name'', ''Who is your current employer?''),
      (''self_employed'', ''Are you self-employed?''),
      (''primary_income'', ''What is your primary monthly income?''),
      (''additional_income'', ''Do you have any additional sources of income?''),
      (''reference1_name'', ''Could you provide the name of your first reference?''),
      (''reference1_relation'', ''What is your relationship with this reference?''),
      (''reference1_contact'', ''What is the contact number for your first reference?''),
      (''reference2_name'', ''Could you provide the name of your second reference?''),
      (''reference2_relation'', ''What is your relationship with this second reference?''),
      (''reference2_contact'', ''What is the contact number for your second reference?''),
      (''declaration'', ''Do you agree to our terms and conditions?''),
      (''whatsapp_opt_in'', ''Would you like to opt-in for WhatsApp notifications?'')]"

definition generate_question :: "string \<Rightarrow> string" where
  "generate_question field =
     (case map_of questions field of
        Some q \<Rightarrow> q
      | None \<Rightarrow> ''Please provide information about '' @ field)"

definition save_to_csv :: "chatbot \<Rightarrow> chatbot" where
  "save_to_csv self = self\<lparr>csv_calls := csv_calls self @ [fields_dict self]\<rparr>"

definition completed :: string where
  "completed = ''Thank you! Your application has been completed and saved.''"

definition process_next_field :: "chatbot \<Rightarrow> (error + string) \<times> chatbot" where
  "process_next_field self =
     (case get_next_missing_field self of
        (Inl e, self1) \<Rightarrow> (Inl e, self1)
      | (Inr None, self1) \<Rightarrow> (Inr completed, save_to_csv self1)
      | (Inr (Some next_field), self1) \<Rightarrow> (Inr (generate_question next_field), self1))"

definition process_user_input :: "api \<Rightarrow> string \<Rightarrow> chatbot \<Rightarrow> (error + string) \<times> chatbot" where
  "process_user_input openai user_input self =
     (case get_next_missing_field self of
        (Inl e, self1) \<Rightarrow> (Inl e, self1)
      | (Inr None, self1) \<Rightarrow> (Inr completed, save_to_csv self1)
      | (Inr (Some next_field), self1) \<Rightarrow>
          (let extracted_value = extract_details openai next_field user_input
           in if truthy extracted_value then
                (if next_field \<in> set [''first_name'', ''last_name''] then
                   (case str_split user_input of
                      [] \<Rightarrow> (Inl IndexError, self1)
                    | name0 # names1 \<Rightarrow>
                        (let self2 = self1\<lparr>fields_dict := (fields_dict self1)(''first_name'' \<mapsto> PyStr name0)\<rparr>;
                             self3 = (if length (name0 # names1) > 1
                                      then self2\<lparr>fields_dict := (fields_dict self2)
                                                     (''last_name'' \<mapsto> PyStr (str_join '' '' names1)),
                                                 current_index := current_index self2 + 1\<rparr>
                                      else self2)
                         in process_next_field (self3\<lparr>current_index := current_index self3 + 1\<rparr>)))
                 else
                   (let self2 = self1\<lparr>fields_dict := (fields_dict self1)
                                         (next_field \<mapsto> extracted_value)\<rparr>
                    in process_next_field (self2\<lparr>current_index := current_index self2 + 1\<rparr>)))
              else (Inr (generate_question next_field), self1)))"

definition handle_commitments :: "string \<Rightarrow> chatbot \<Rightarrow> (error + string) \<times> chatbot" where
  "handle_commitments user_input self =
     (case fields_dict self ''commitments'' of
        None \<Rightarrow> (Inl (KeyError ''commitments''), self)
      | Some PyNone \<Rightarrow>
          process_next_field
            (self\<lparr>fields_dict := (fields_dict self)(''commitments'' \<mapsto> PyList [user_input]),
                  current_index := current_index self + 1\<rparr>)
      | Some (PyList xs) \<Rightarrow>
          process_next_field
            (self\<lparr>fields_dict := (fields_dict self)(''commitments'' \<mapsto> PyList (xs @ [user_input])),
                  current_index := current_index self + 1\<rparr>)
      | Some (PyStr x) \<Rightarrow> (Inl AttributeError, self))"

text \<open>\<open>self.fields[key].append(user_input)\<close>, as both branches of \<open>handle_uploaded_files\<close> do.\<close>

definition append_to :: "string \<Rightarrow> string \<Rightarrow> chatbot \<Rightarrow> error + chatbot" where
  "append_to key user_input self =
     (case fields_dict self key of
        None \<Rightarrow> Inl (KeyError key)
      | Some (PyList xs) \<Rightarrow> Inr (self\<lparr>fields_dict := (fields_dict self)(key \<mapsto> PyList (xs @ [user_input]))\<rparr>)
      | Some _ \<Rightarrow> Inl AttributeError)"

definition handle_uploaded_files :: "string \<Rightarrow> string \<Rightarrow> chatbot \<Rightarrow> (error + string) \<times> chatbot" where
  "handle_uploaded_files field user_input self =
     (case (if field = ''uploaded_ids'' then append_to ''uploaded_ids'' user_input self
            else if field = ''uploaded_documents'' then append_to ''uploaded_documents'' user_input self
            else Inr self) of
        Inl e \<Rightarrow> (Inl e, self)
      | Inr self1 \<Rightarrow> process_next_field (self1\<lparr>current_index := current_index self1 + 1\<rparr>))"

section \<open>Sessions\<close>

text \<open>The public methods a caller can invoke on the object, with their arguments.\<close>

datatype call =
    ProcessUserInput api string
  | HandleCommitments string
  | HandleUploadedFiles string string

fun call_method :: "call \<Rightarrow> chatbot \<Rightarrow> (error + string) \<times> chatbot" where
  "call_method (ProcessUserInput openai user_input) self =
     process_user_input openai user_input self"
| "call_method (HandleCommitments user_input) self = handle_commitments user_input self"
| "call_method (HandleUploadedFiles field user_input) self =
     handle_uploaded_files field user_input self"

text \<open>
  The states of a session: the freshly constructed object, and the object after any call of
  a public method, whatever the reply of the extraction service and whether or not the call
  raised.
\<close>

inductive reachable :: "chatbot \<Rightarrow> bool" where
  reachable_init: "reachable init"
| reachable_call: "reachable self \<Longrightarrow> reachable (snd (call_method c self))"

text \<open>A sequence of calls, one after the other, on the same object.\<close>

fun calls :: "call list \<Rightarrow> chatbot \<Rightarrow> chatbot" where
  "calls [] self = self"
| "calls (c # cs) self = calls cs (snd (call_method c self))"

text \<open>An extraction service that answers with the user's own text.\<close>

definition echo :: api where
  "echo field user_input = ApiContent user_input"

text \<open>
  A service that finds nothing (its reply is the word \<open>None\<close>), and one whose call raises.
\<close>

definition no_value :: api where
  "no_value field user_input = ApiContent '' None ''"

definition service_down :: api where
  "service_down field user_input = ApiRaises"

text \<open>
  The answers of an applicant to the eighteen questions from \<open>telephone\<close> to
  \<open>declaration\<close>, one per turn; the names come before and \<open>whatsapp_opt_in\<close> after.
\<close>

definition other_answers :: "call list" where
  "other_answers =
     [ProcessUserInput echo ''5550100'',
      ProcessUserInput echo ''jane@example.com'',
      ProcessUserInput echo ''01/02/1990'',
      ProcessUserInput echo ''5000'',
      ProcessUserInput echo ''a car'',
      ProcessUserInput echo ''yes'',
      ProcessUserInput echo ''single'',
      ProcessUserInput echo ''Acme'',
      ProcessUserInput echo ''no'',
      ProcessUserInput echo ''3000'',
      ProcessUserInput echo ''0'',
      ProcessUserInput echo ''Ann'',
      ProcessUserInput echo ''sister'',
      ProcessUserInput echo ''5550101'',
      ProcessUserInput echo ''Bob'',
      ProcessUserInput echo ''friend'',
      ProcessUserInput echo ''5550102'',
      ProcessUserInput echo ''yes'']"

text \<open>The session after the applicant has answered \<open>Jane\<close> to the first question.\<close>

definition jane_said :: chatbot where
  "jane_said = snd (process_user_input echo ''Jane'' init)"

text \<open>The session after the applicant has given both names at once and every other answer.\<close>

definition all_answered :: chatbot where
  "all_answered =
     calls (ProcessUserInput echo ''Jane Doe'' # other_answers @ [ProcessUserInput echo ''yes''])
       init"

text \<open>Every field of \<open>conversation_order\<close> holds a value other than \<open>None\<close>.\<close>

definition plan_filled :: "chatbot \<Rightarrow> bool" where
  "plan_filled self =
     list_all (\<lambda>field. case fields_dict self field of
                          None \<Rightarrow> False
                        | Some v \<Rightarrow> v \<noteq> PyNone) conversation_order"

text \<open>
  What holds of the object throughout a session: the keys read by the scan exist, the three
  repeatable fields hold lists, a filled \<open>first_name\<close> means the index has left position 0,
  and \<open>last_name\<close> is never filled before \<open>first_name\<close>.
\<close>

definition is_list :: "pyval option \<Rightarrow> bool" where
  "is_list v = (case v of Some (PyList xs) \<Rightarrow> True | _ \<Rightarrow> False)"

definition session_inv :: "chatbot \<Rightarrow> bool" where
  "session_inv self \<longleftrightarrow>
     list_all (\<lambda>field. fields_dict self field \<noteq> None) conversation_order \<and>
     is_list (fields_dict self ''commitments'') \<and>
     is_list (fields_dict self ''uploaded_ids'') \<and>
     is_list (fields_dict self ''uploaded_documents'') \<and>
     (fields_dict self ''first_name'' \<noteq> Some PyNone \<longrightarrow> 1 \<le> current_index self) \<and>
     (fields_dict self ''last_name'' \<noteq> Some PyNone \<longrightarrow>
        fields_dict self ''first_name'' \<noteq> Some PyNone)"

text \<open>
  How many fields of \<open>conversation_order\<close> hold a value other than \<open>None\<close>: the measure
  against which the advance of \<open>current_index\<close> is stated.
\<close>

definition count_filled :: "(string \<rightharpoonup> pyval) \<Rightarrow> string list \<Rightarrow> nat" where
  "count_filled fs xs =
     length (filter (\<lambda>field. case fs field of None \<Rightarrow> False | Some v \<Rightarrow> v \<noteq> PyNone) xs)"

definition filled_plan_fields :: "chatbot \<Rightarrow> nat" where
  "filled_plan_fields self = count_filled (fields_dict self) conversation_order"

text \<open>The session after the applicant has answered \<open>Jane Doe\<close> to the first question.\<close>

definition jane_doe_said :: chatbot where
  "jane_doe_said = snd (process_user_input echo ''Jane Doe'' init)"

section \<open>The scan and the turn, case by case\<close>

lemma scan_fields_Some:
  "scan_fields fs xs = Inr (Some f) \<Longrightarrow> f \<in> set xs \<and> fs f = Some PyNone"
  by (induction xs) (auto split: option.splits if_splits)

lemma scan_fields_None:
  "scan_fields fs xs = Inr None \<longleftrightarrow> (\<forall>f \<in> set xs. \<exists>v. fs f = Some v \<and> v \<noteq> PyNone)"
  by (induction xs) (auto split: option.splits)

lemma get_next_fst:
  "fst (get_next_missing_field self) =
     scan_fields (fields_dict self) (drop (current_index self) conversation_order)"
  by (simp add: get_next_missing_field_def)

lemma get_next_save_to_csv [simp]:
  "fst (get_next_missing_field (save_to_csv self)) = fst (get_next_missing_field self)"
  by (simp add: get_next_fst save_to_csv_def)

lemma process_next_field_cases:
  "process_next_field self =
     (case fst (get_next_missing_field self) of
        Inl e \<Rightarrow> (Inl e, self)
      | Inr None \<Rightarrow> (Inr completed, save_to_csv self)
      | Inr (Some f) \<Rightarrow> (Inr (generate_question f), self))"
  by (simp add: process_next_field_def get_next_missing_field_def
      split: sum.splits option.splits)

lemma process_next_field_fields [simp]:
  "fields_dict (snd (process_next_field self)) = fields_dict self"
  by (simp add: process_next_field_cases save_to_csv_def split: sum.splits option.splits)

lemma process_next_field_index [simp]:
  "current_index (snd (process_next_field self)) = current_index self"
  by (simp add: process_next_field_cases save_to_csv_def split: sum.splits option.splits)

lemma process_next_field_prompt:
  assumes "process_next_field self0 = (Inr q, self)"
    and "fst (get_next_missing_field self) = Inr (Some target)"
  shows "q = generate_question target"
  using assms by (auto simp: process_next_field_cases split: sum.splits option.splits)

lemma process_user_input_falsy:
  assumes "fst (get_next_missing_field self) = Inr (Some target)"
    and "\<not> truthy (extract_details openai target user_input)"
  shows "process_user_input openai user_input self = (Inr (generate_question target), self)"
  using assms by (simp add: process_user_input_def get_next_missing_field_def)

lemma process_user_input_done:
  assumes "fst (get_next_missing_field self) = Inr None"
  shows "process_user_input openai user_input self = (Inr completed, save_to_csv self)"
  using assms by (simp add: process_user_input_def get_next_missing_field_def)

lemma process_user_input_error:
  assumes "fst (get_next_missing_field self) = Inl e"
  shows "process_user_input openai user_input self = (Inl e, self)"
  using assms by (simp add: process_user_input_def get_next_missing_field_def)

lemma process_user_input_default:
  assumes "fst (get_next_missing_field self) = Inr (Some target)"
    and "truthy (extract_details openai target user_input)"
    and "target \<noteq> ''first_name''" and "target \<noteq> ''last_name''"
  shows "process_user_input openai user_input self =
           process_next_field
             (self\<lparr>fields_dict := (fields_dict self)
                     (target \<mapsto> extract_details openai target user_input),
                   current_index := current_index self + 1\<rparr>)"
  using assms by (simp add: process_user_input_def get_next_missing_field_def)

lemma process_user_input_name:
  assumes "fst (get_next_missing_field self) = Inr (Some target)"
    and "truthy (extract_details openai target user_input)"
    and "target = ''first_name'' \<or> target = ''last_name''"
  shows "process_user_input openai user_input self =
           (case str_split user_input of
              [] \<Rightarrow> (Inl IndexError, self)
            | [name0] \<Rightarrow>
                process_next_field
                  (self\<lparr>fields_dict := (fields_dict self)(''first_name'' \<mapsto> PyStr name0),
                        current_index := current_index self + 1\<rparr>)
            | name0 # names1 \<Rightarrow>
                process_next_field
                  (self\<lparr>fields_dict := (fields_dict self)
                          (''first_name'' \<mapsto> PyStr name0,
                           ''last_name'' \<mapsto> PyStr (str_join '' '' names1)),
                        current_index := current_index self + 2\<rparr>))"
  using assms
  by (auto simp add: process_user_input_def get_next_missing_field_def split: list.splits)

section \<open>Positions in the plan and the session invariant\<close>

lemma plan_not_repeatable:
  "''commitments'' \<notin> set conversation_order"
  "''uploaded_ids'' \<notin> set conversation_order"
  "''uploaded_documents'' \<notin> set conversation_order"
  by (simp_all add: conversation_order_def)

lemma target_in_plan:
  assumes "fst (get_next_missing_field self) = Inr (Some target)"
  shows "target \<in> set conversation_order" and "fields_dict self target = Some PyNone"
  using assms scan_fields_Some [of "fields_dict self" "drop (current_index self) conversation_order" target]
  by (auto simp: get_next_fst dest: in_set_dropD)

lemma first_name_only_at_0:
  assumes "''first_name'' \<in> set (drop p conversation_order)"
  shows "p = 0"
proof (rule ccontr)
  assume "p \<noteq> 0"
  then have "1 \<le> p" by simp
  then have "set (drop p conversation_order) \<subseteq> set (drop 1 conversation_order)"
    by (rule set_drop_subset_set_drop)
  with assms show False by (auto simp: conversation_order_def)
qed

lemma last_name_only_at_1:
  assumes "''last_name'' \<in> set (drop p conversation_order)"
  shows "p \<le> 1"
proof (rule ccontr)
  assume "\<not> p \<le> 1"
  then have "2 \<le> p" by simp
  then have "set (drop p conversation_order) \<subseteq> set (drop 2 conversation_order)"
    by (rule set_drop_subset_set_drop)
  with assms show False by (auto simp: conversation_order_def)
qed

lemma target_first_name_index:
  assumes "fst (get_next_missing_field self) = Inr (Some ''first_name'')"
  shows "current_index self = 0"
  using assms scan_fields_Some [of "fields_dict self" "drop (current_index self) conversation_order" "''first_name''"]
  by (auto simp: get_next_fst intro: first_name_only_at_0)

lemma target_last_name_index:
  assumes "fst (get_next_missing_field self) = Inr (Some ''last_name'')"
    and "session_inv self"
  shows "current_index self = 1"
proof -
  have "''last_name'' \<in> set (drop (current_index self) conversation_order)"
    using assms(1) scan_fields_Some by (fastforce simp: get_next_fst)
  then have le: "current_index self \<le> 1" by (rule last_name_only_at_1)
  have "current_index self \<noteq> 0"
  proof
    assume z: "current_index self = 0"
    with assms(1) have "fields_dict self ''first_name'' \<noteq> Some PyNone"
      by (auto simp: get_next_fst conversation_order_def split: option.splits if_splits)
    with assms(2) z show False by (simp add: session_inv_def)
  qed
  with le show ?thesis by simp
qed

lemma session_inv_cong:
  assumes "fields_dict self' = fields_dict self" and "current_index self' = current_index self"
  shows "session_inv self' = session_inv self"
  using assms by (simp add: session_inv_def)

lemma session_inv_process_next_field [simp]:
  "session_inv (snd (process_next_field self)) = session_inv self"
  by (rule session_inv_cong) simp_all

lemma session_inv_init: "session_inv init"
  by code_simp

lemma session_inv_index:
  assumes "session_inv self" and "current_index self \<le> n"
  shows "session_inv (self\<lparr>current_index := n\<rparr>)"
  using assms by (auto simp: session_inv_def)

lemma session_inv_fill:
  assumes "session_inv self" and "current_index self \<le> n"
    and "key \<noteq> ''first_name''" and "key \<noteq> ''last_name''"
    and "key \<in> set [''commitments'', ''uploaded_ids'', ''uploaded_documents''] \<longrightarrow> is_list (Some v)"
  shows "session_inv (self\<lparr>fields_dict := (fields_dict self)(key \<mapsto> v), current_index := n\<rparr>)"
  using assms by (auto simp: session_inv_def list_all_iff)

lemma session_inv_first:
  assumes "session_inv self" and "1 \<le> n"
  shows "session_inv (self\<lparr>fields_dict := (fields_dict self)(''first_name'' \<mapsto> PyStr a),
                          current_index := n\<rparr>)"
  using assms by (auto simp: session_inv_def list_all_iff)

lemma session_inv_both:
  assumes "session_inv self" and "1 \<le> n"
  shows "session_inv (self\<lparr>fields_dict := (fields_dict self)
                            (''first_name'' \<mapsto> PyStr a, ''last_name'' \<mapsto> PyStr b),
                          current_index := n\<rparr>)"
  using assms by (auto simp: session_inv_def list_all_iff)

lemma session_inv_process_user_input:
  assumes "session_inv self"
  shows "session_inv (snd (process_user_input openai user_input self))"
proof (cases "fst (get_next_missing_field self)")
  case (Inl e)
  with assms show ?thesis by (simp add: process_user_input_error)
next
  case (Inr r)
  show ?thesis
  proof (cases r)
    case None
    with Inr assms show ?thesis
      by (simp add: process_user_input_done save_to_csv_def session_inv_def)
  next
    case (Some target)
    with Inr have t: "fst (get_next_missing_field self) = Inr (Some target)" by simp
    show ?thesis
    proof (cases "truthy (extract_details openai target user_input)")
      case False
      with t assms show ?thesis by (simp add: process_user_input_falsy)
    next
      case True
      show ?thesis
      proof (cases "target = ''first_name'' \<or> target = ''last_name''")
        case True
        with t \<open>truthy _\<close> assms show ?thesis
          by (auto simp: process_user_input_name session_inv_first session_inv_both
              split: list.splits)
      next
        case False
        from target_in_plan(1) [OF t] plan_not_repeatable
        have "target \<notin> set [''commitments'', ''uploaded_ids'', ''uploaded_documents'']"
          by auto
        with False t \<open>truthy _\<close> assms show ?thesis
          by (simp add: process_user_input_default session_inv_fill)
      qed
    qed
  qed
qed

lemma session_inv_handle_commitments:
  assumes "session_inv self"
  shows "session_inv (snd (handle_commitments user_input self))"
proof (cases "fields_dict self ''commitments''")
  case None
  with assms show ?thesis by (simp add: handle_commitments_def)
next
  case (Some v)
  with assms show ?thesis
    by (cases v) (simp_all add: handle_commitments_def session_inv_fill is_list_def)
qed

lemma session_inv_append_to:
  assumes "session_inv self" and "append_to key user_input self = Inr self'"
    and "key \<noteq> ''first_name''" and "key \<noteq> ''last_name''"
  shows "session_inv (self'\<lparr>current_index := Suc (current_index self')\<rparr>)"
proof -
  from assms(2) obtain xs where "fields_dict self key = Some (PyList xs)"
    and "self' = self\<lparr>fields_dict := (fields_dict self)(key \<mapsto> PyList (xs @ [user_input]))\<rparr>"
    by (auto simp: append_to_def split: option.splits pyval.splits)
  with assms(1,3,4) show ?thesis
    by (simp add: session_inv_fill is_list_def)
qed

lemma session_inv_handle_uploaded_files:
  assumes "session_inv self"
  shows "session_inv (snd (handle_uploaded_files field user_input self))"
proof -
  consider "field = ''uploaded_ids''"
    | "field \<noteq> ''uploaded_ids''" "field = ''uploaded_documents''"
    | "field \<noteq> ''uploaded_ids''" "field \<noteq> ''uploaded_documents''"
    by blast
  then show ?thesis
  proof cases
    case 1
    with assms show ?thesis
      by (cases "append_to ''uploaded_ids'' user_input self")
        (simp_all add: handle_uploaded_files_def session_inv_append_to)
  next
    case 2
    with assms show ?thesis
      by (cases "append_to ''uploaded_documents'' user_input self")
        (simp_all add: handle_uploaded_files_def session_inv_append_to)
  next
    case 3
    with assms show ?thesis
      by (simp add: handle_uploaded_files_def session_inv_index)
  qed
qed

lemma reachable_session_inv: "reachable self \<Longrightarrow> session_inv self"
proof (induction rule: reachable.induct)
  case reachable_init
  show ?case by (rule session_inv_init)
next
  case (reachable_call self c)
  then show ?case
    by (cases c)
      (simp_all add: session_inv_process_user_input session_inv_handle_commitments
        session_inv_handle_uploaded_files)
qed

section \<open>Further facts about the methods\<close>

lemma plan_filled_iff:
  "plan_filled self \<longleftrightarrow>
     (\<forall>f \<in> set conversation_order. \<exists>v. fields_dict self f = Some v \<and> v \<noteq> PyNone)"
  by (auto simp: plan_filled_def list_all_iff split: option.splits)

lemma plan_filled_done:
  assumes "plan_filled self"
  shows "fst (get_next_missing_field self) = Inr None"
  using assms by (auto simp: plan_filled_iff get_next_fst scan_fields_None dest: in_set_dropD)

lemma plan_filled_save_to_csv [simp]: "plan_filled (save_to_csv self) = plan_filled self"
  by (simp add: plan_filled_def save_to_csv_def)

lemma calls_after_completion:
  assumes "plan_filled self"
  shows "calls (map (\<lambda>(openai, user_input). ProcessUserInput openai user_input) turns) self =
           self\<lparr>csv_calls := csv_calls self @ replicate (length turns) (fields_dict self)\<rparr>"
  using assms
proof (induction turns arbitrary: self)
  case Nil
  show ?case by simp
next
  case (Cons t turns)
  obtain openai user_input where t: "t = (openai, user_input)" by (cases t)
  from Cons.prems have "plan_filled (save_to_csv self)" by simp
  from Cons.IH [OF this] Cons.prems t show ?case
    by (simp add: process_user_input_done plan_filled_done save_to_csv_def
        replicate_append_same)
qed

lemma index_process_user_input:
  "current_index self \<le> current_index (snd (process_user_input openai user_input self))"
proof (cases "fst (get_next_missing_field self)")
  case (Inl e)
  then show ?thesis by (simp add: process_user_input_error)
next
  case (Inr r)
  show ?thesis
  proof (cases r)
    case None
    with Inr show ?thesis by (simp add: process_user_input_done save_to_csv_def)
  next
    case (Some target)
    with Inr have t: "fst (get_next_missing_field self) = Inr (Some target)" by simp
    show ?thesis
    proof (cases "truthy (extract_details openai target user_input)")
      case False
      with t show ?thesis by (simp add: process_user_input_falsy)
    next
      case True
      with t show ?thesis
        by (cases "target = ''first_name'' \<or> target = ''last_name''")
          (auto simp: process_user_input_name process_user_input_default split: list.splits)
    qed
  qed
qed

lemma index_handle_commitments:
  "current_index self \<le> current_index (snd (handle_commitments user_input self))"
  by (simp add: handle_commitments_def split: option.splits pyval.splits)

lemma append_to_index:
  "append_to key user_input self = Inr self' \<Longrightarrow> current_index self' = current_index self"
  by (auto simp: append_to_def split: option.splits pyval.splits)

lemma index_handle_uploaded_files:
  "current_index self \<le> current_index (snd (handle_uploaded_files field user_input self))"
  by (auto simp: handle_uploaded_files_def dest: append_to_index split: sum.splits)

lemma index_call_method:
  "current_index self \<le> current_index (snd (call_method c self))"
  by (cases c)
    (simp_all add: index_process_user_input index_handle_commitments index_handle_uploaded_files)

text \<open>
  Whatever call left the object in the state \<open>self\<close> and answered with a text: if a field is
  outstanding in \<open>self\<close>, that text was the question of this field.
\<close>

lemma prompt_of_state:
  assumes "call_method c self0 = (Inr q, self)"
    and "fst (get_next_missing_field self) = Inr (Some target)"
  shows "q = generate_question target"
proof (cases c)
  case (ProcessUserInput openai user_input)
  with assms(1) have p: "process_user_input openai user_input self0 = (Inr q, self)" by simp
  show ?thesis
  proof (cases "fst (get_next_missing_field self0)")
    case (Inl e)
    with p show ?thesis by (simp add: process_user_input_error)
  next
    case (Inr r)
    show ?thesis
    proof (cases r)
      case None
      with Inr p assms(2) show ?thesis by (auto simp: process_user_input_done)
    next
      case (Some t0)
      with Inr have t: "fst (get_next_missing_field self0) = Inr (Some t0)" by simp
      show ?thesis
      proof (cases "truthy (extract_details openai t0 user_input)")
        case False
        with t p assms(2) show ?thesis by (auto simp: process_user_input_falsy)
      next
        case True
        show ?thesis
        proof (cases "t0 = ''first_name'' \<or> t0 = ''last_name''")
          case True
          with t \<open>truthy _\<close> p assms(2) show ?thesis
            by (auto simp: process_user_input_name split: list.splits
                dest: process_next_field_prompt)
        next
          case False
          with t \<open>truthy _\<close> p assms(2) show ?thesis
            by (auto simp: process_user_input_default dest: process_next_field_prompt)
        qed
      qed
    qed
  qed
next
  case (HandleCommitments user_input)
  with assms show ?thesis
    by (auto simp: handle_commitments_def split: option.splits pyval.splits
        dest: process_next_field_prompt)
next
  case (HandleUploadedFiles field user_input)
  with assms show ?thesis
    by (auto simp: handle_uploaded_files_def split: sum.splits
        dest: process_next_field_prompt)
qed

lemma extract_details_raises:
  "openai field user_input = ApiRaises \<Longrightarrow> extract_details openai field user_input = PyNone"
  by (simp add: extract_details_def)

lemma get_next_at_last_name:
  assumes "fs ''last_name'' = Some PyNone"
  shows "scan_fields fs (drop (Suc 0) conversation_order) = Inr (Some ''last_name'')"
  using assms by (simp add: conversation_order_def)

lemma get_next_past_last_name:
  "scan_fields fs (drop (Suc (Suc 0)) conversation_order) \<noteq> Inr (Some ''last_name'')"
proof
  assume "scan_fields fs (drop (Suc (Suc 0)) conversation_order) = Inr (Some ''last_name'')"
  then have "''last_name'' \<in> set (drop (Suc (Suc 0)) conversation_order)"
    by (simp add: scan_fields_Some)
  then show False by (simp add: conversation_order_def)
qed

lemma scan_fields_cong:
  assumes "\<And>f. f \<in> set xs \<Longrightarrow> fs' f = fs f"
  shows "scan_fields fs' xs = scan_fields fs xs"
  using assms by (induction xs) (auto split: option.splits)

subsection \<open>The handlers of the repeatable fields\<close>

lemma handle_commitments_in_session:
  assumes "session_inv self"
  shows "\<exists>fs. (\<forall>f \<in> set conversation_order. fs f = fields_dict self f) \<and>
           handle_commitments user_input self =
           process_next_field
             (self\<lparr>fields_dict := fs, current_index := current_index self + 1\<rparr>)"
proof -
  from assms obtain xs where "fields_dict self ''commitments'' = Some (PyList xs)"
    by (auto simp: session_inv_def is_list_def split: option.splits pyval.splits)
  with plan_not_repeatable(1) show ?thesis
    by (intro exI [of _ "(fields_dict self)(''commitments'' \<mapsto> PyList (xs @ [user_input]))"])
      (auto simp: handle_commitments_def)
qed

lemma handle_uploaded_files_in_session:
  assumes "session_inv self"
  shows "\<exists>fs. (\<forall>f \<in> set conversation_order. fs f = fields_dict self f) \<and>
           handle_uploaded_files field user_input self =
           process_next_field
             (self\<lparr>fields_dict := fs, current_index := current_index self + 1\<rparr>)"
proof -
  consider "field = ''uploaded_ids''"
    | "field \<noteq> ''uploaded_ids''" "field = ''uploaded_documents''"
    | "field \<noteq> ''uploaded_ids''" "field \<noteq> ''uploaded_documents''"
    by blast
  then show ?thesis
  proof cases
    case 1
    from assms obtain xs where "fields_dict self ''uploaded_ids'' = Some (PyList xs)"
      by (auto simp: session_inv_def is_list_def split: option.splits pyval.splits)
    with 1 plan_not_repeatable(2) show ?thesis
      by (intro exI [of _ "(fields_dict self)(''uploaded_ids'' \<mapsto> PyList (xs @ [user_input]))"])
        (auto simp: handle_uploaded_files_def append_to_def)
  next
    case 2
    from assms obtain xs where "fields_dict self ''uploaded_documents'' = Some (PyList xs)"
      by (auto simp: session_inv_def is_list_def split: option.splits pyval.splits)
    with 2 plan_not_repeatable(3) show ?thesis
      by (intro exI [of _ "(fields_dict self)(''uploaded_documents'' \<mapsto> PyList (xs @ [user_input]))"])
        (auto simp: handle_uploaded_files_def append_to_def)
  next
    case 3
    then show ?thesis
      by (intro exI [of _ "fields_dict self"]) (simp add: handle_uploaded_files_def)
  qed
qed

lemma handle_commitments_plan_fields:
  assumes "field \<in> set conversation_order"
  shows "fields_dict (snd (handle_commitments user_input self)) field = fields_dict self field"
proof -
  from assms plan_not_repeatable(1) have "field \<noteq> ''commitments''" by auto
  then show ?thesis
    by (simp add: handle_commitments_def split: option.splits pyval.splits)
qed

lemma append_to_other_fields:
  assumes "append_to key user_input self = Inr self'" and "field \<noteq> key"
  shows "fields_dict self' field = fields_dict self field"
  using assms by (auto simp: append_to_def split: option.splits pyval.splits)

lemma handle_uploaded_files_plan_fields:
  assumes "field \<in> set conversation_order"
  shows "fields_dict (snd (handle_uploaded_files key user_input self)) field =
           fields_dict self field"
proof -
  from assms plan_not_repeatable have "field \<noteq> ''uploaded_ids''" "field \<noteq> ''uploaded_documents''"
    by auto
  then show ?thesis
    by (auto simp: handle_uploaded_files_def split: sum.splits dest: append_to_other_fields)
qed

lemma next_after_skip:
  assumes "\<forall>f \<in> set conversation_order. fs f = fields_dict self f"
  shows "fst (get_next_missing_field
                (snd (process_next_field (self\<lparr>fields_dict := fs, current_index := n\<rparr>)))) =
           scan_fields (fields_dict self) (drop n conversation_order)"
proof -
  have "fst (get_next_missing_field
               (snd (process_next_field (self\<lparr>fields_dict := fs, current_index := n\<rparr>)))) =
          scan_fields fs (drop n conversation_order)"
    by (simp add: get_next_fst)
  also have "\<dots> = scan_fields (fields_dict self) (drop n conversation_order)"
    using assms by (intro scan_fields_cong) (auto dest: in_set_dropD)
  finally show ?thesis .
qed

subsection \<open>Concrete turns\<close>

lemma split_jane_doe: "str_split ''Jane Doe'' = [''Jane'', ''Doe'']"
  by (simp add: str_split_def isspace_def)

lemma split_jane: "str_split ''Jane'' = [''Jane'']"
  by (simp add: str_split_def isspace_def)

lemma split_doe: "str_split ''Doe'' = [''Doe'']"
  by (simp add: str_split_def isspace_def)

lemma extract_echo_jane_doe:
  "extract_details echo ''first_name'' ''Jane Doe'' = PyStr ''Jane Doe''"
  by code_simp

lemma extract_echo_jane: "extract_details echo ''first_name'' ''Jane'' = PyStr ''Jane''"
  by code_simp

lemma extract_echo_doe: "extract_details echo ''last_name'' ''Doe'' = PyStr ''Doe''"
  by code_simp

lemma extract_no_value: "extract_details no_value field user_input = PyNone"
  by code_simp

lemma get_next_init: "fst (get_next_missing_field init) = Inr (Some ''first_name'')"
  by (simp add: get_next_fst init_def init_fields_def conversation_order_def)

lemma reachable_jane_said: "reachable jane_said"
  unfolding jane_said_def
  using reachable_call [OF reachable_init, of "ProcessUserInput echo ''Jane''"] by simp

lemma get_next_jane_said: "fst (get_next_missing_field jane_said) = Inr (Some ''last_name'')"
  by code_simp

lemma jane_said_first_name: "fields_dict jane_said ''first_name'' = Some (PyStr ''Jane'')"
  by code_simp

lemma question_first_name:
  "generate_question ''first_name'' = ''Could you please tell me your first name?''"
  by (simp add: generate_question_def questions_def)

lemma question_last_name: "generate_question ''last_name'' = ''What is your last name?''"
  by (simp add: generate_question_def questions_def)

lemma plan_filled_all_answered: "plan_filled all_answered"
  by code_simp

subsection \<open>Counting the filled fields of the plan\<close>

lemma count_filled_cong:
  assumes "\<forall>f \<in> set xs. fs' f = fs f"
  shows "count_filled fs' xs = count_filled fs xs"
proof -
  have "filter (\<lambda>field. case fs' field of None \<Rightarrow> False | Some v \<Rightarrow> v \<noteq> PyNone) xs =
        filter (\<lambda>field. case fs field of None \<Rightarrow> False | Some v \<Rightarrow> v \<noteq> PyNone) xs"
    using assms by (intro filter_cong) auto
  then show ?thesis by (simp add: count_filled_def)
qed

lemma count_filled_other:
  assumes "t \<notin> set xs"
  shows "count_filled (fs(t \<mapsto> v)) xs = count_filled fs xs"
  using assms by (intro count_filled_cong) auto

lemma count_filled_fill:
  assumes "distinct xs" and "t \<in> set xs" and "fs t = Some PyNone" and "v \<noteq> PyNone"
  shows "count_filled (fs(t \<mapsto> v)) xs = Suc (count_filled fs xs)"
  using assms
proof (induction xs)
  case Nil
  then show ?case by simp
next
  case (Cons x xs)
  show ?case
  proof (cases "x = t")
    case True
    with Cons.prems have "t \<notin> set xs" by simp
    then have "count_filled (fs(t \<mapsto> v)) xs = count_filled fs xs"
      by (rule count_filled_other)
    with True Cons.prems(3,4) show ?thesis
      by (simp add: count_filled_def)
  next
    case False
    with Cons.prems have "distinct xs" "t \<in> set xs" by auto
    from Cons.IH [OF this Cons.prems(3,4)] False show ?thesis
      by (simp add: count_filled_def)
  qed
qed

lemma distinct_conversation_order: "distinct conversation_order"
  by (simp add: conversation_order_def)

lemma truthy_not_None: "truthy v \<Longrightarrow> v \<noteq> PyNone"
  by (auto simp: truthy_def)

lemma filled_process_next_field [simp]:
  "filled_plan_fields (snd (process_next_field self)) = filled_plan_fields self"
  by (simp add: filled_plan_fields_def)

lemma filled_fill:
  assumes "t \<in> set conversation_order" and "fields_dict self t = Some PyNone"
    and "v \<noteq> PyNone"
  shows "filled_plan_fields (self\<lparr>fields_dict := (fields_dict self)(t \<mapsto> v), current_index := n\<rparr>) =
           Suc (filled_plan_fields self)"
  using assms by (simp add: filled_plan_fields_def count_filled_fill distinct_conversation_order)

lemma names_in_plan:
  "''first_name'' \<in> set conversation_order" "''last_name'' \<in> set conversation_order"
  by (simp_all add: conversation_order_def)

lemma filled_fill_both:
  assumes "fields_dict self ''first_name'' = Some PyNone"
    and "fields_dict self ''last_name'' = Some PyNone"
  shows "filled_plan_fields
           (self\<lparr>fields_dict := (fields_dict self)
                   (''first_name'' \<mapsto> PyStr a, ''last_name'' \<mapsto> PyStr b),
                 current_index := n\<rparr>) =
           Suc (Suc (filled_plan_fields self))"
proof -
  have 1: "count_filled ((fields_dict self)(''first_name'' \<mapsto> PyStr a)) conversation_order =
             Suc (count_filled (fields_dict self) conversation_order)"
    using assms(1)
    by (intro count_filled_fill distinct_conversation_order names_in_plan) simp_all
  have "((fields_dict self)(''first_name'' \<mapsto> PyStr a)) ''last_name'' = Some PyNone"
    using assms(2) by simp
  then have "count_filled ((fields_dict self)(''first_name'' \<mapsto> PyStr a, ''last_name'' \<mapsto> PyStr b))
               conversation_order =
             Suc (count_filled ((fields_dict self)(''first_name'' \<mapsto> PyStr a)) conversation_order)"
    by (intro count_filled_fill distinct_conversation_order names_in_plan) simp_all
  with 1 show ?thesis by (simp add: filled_plan_fields_def)
qed

lemma filled_handle_commitments:
  "filled_plan_fields (snd (handle_commitments user_input self)) = filled_plan_fields self"
  unfolding filled_plan_fields_def
  by (intro count_filled_cong ballI handle_commitments_plan_fields)

lemma filled_handle_uploaded_files:
  "filled_plan_fields (snd (handle_uploaded_files key user_input self)) = filled_plan_fields self"
  unfolding filled_plan_fields_def
  by (intro count_filled_cong ballI handle_uploaded_files_plan_fields)

lemma index_handle_commitments_in_session:
  assumes "session_inv self"
  shows "current_index (snd (handle_commitments user_input self)) = current_index self + 1"
  using handle_commitments_in_session [OF assms, of user_input] by auto

lemma index_handle_uploaded_files_in_session:
  assumes "session_inv self"
  shows "current_index (snd (handle_uploaded_files key user_input self)) = current_index self + 1"
  using handle_uploaded_files_in_session [OF assms, of key user_input] by auto

lemma reachable_jane_doe_said: "reachable jane_doe_said"
  unfolding jane_doe_said_def
  using reachable_call [OF reachable_init, of "ProcessUserInput echo ''Jane Doe''"] by simp

lemma get_next_jane_doe_said:
  "fst (get_next_missing_field jane_doe_said) = Inr (Some ''telephone'')"
  by code_simp

lemma extract_echo_telephone:
  "extract_details echo ''telephone'' ''5550100'' = PyStr ''5550100''"
  by code_simp

section \<open>The scan has no effect\<close>

text \<open>
  C8. \<open>get_next_missing_field\<close> leaves the object as it found it, and a second call right
  after the first returns what the first returned: the same field, or \<open>None\<close> both times.
\<close>

theorem get_next_missing_field_no_effect:
  "snd (get_next_missing_field self) = self \<and>
   get_next_missing_field (snd (get_next_missing_field self)) = get_next_missing_field self"
  by (simp add: get_next_missing_field_def)

section \<open>Reprompting\<close>

text \<open>
  C4. When a field is outstanding and the extraction gives nothing for it (\<open>None\<close>, or a
  value that \<open>if extracted_value:\<close> rejects), \<open>process_user_input\<close> answers with the
  question of that field and leaves the whole object, the fields and the index included,
  as it was. The question is the one the preceding call asked: any call that left the
  object in this state and answered with a text answered with this question.
\<close>

theorem reprompt_when_nothing_extracted:
  assumes "fst (get_next_missing_field self) = Inr (Some target)"
    and "\<not> truthy (extract_details openai target user_input)"
  shows "process_user_input openai user_input self = (Inr (generate_question target), self) \<and>
         (\<forall>c self0 q. call_method c self0 = (Inr q, self) \<longrightarrow> q = generate_question target)"
  using assms by (auto simp: process_user_input_falsy dest: prompt_of_state)

text \<open>
  C4 at an input: after \<open>Jane\<close> the chatbot asks for the last name; a turn from which the
  service extracts nothing gets the same question and changes nothing.
\<close>

theorem reprompt_when_nothing_extracted_witness:
  "fst (get_next_missing_field jane_said) = Inr (Some ''last_name'') \<and>
   \<not> truthy (extract_details no_value ''last_name'' ''it is a secret'') \<and>
   fst (process_user_input echo ''Jane'' init) = Inr ''What is your last name?'' \<and>
   process_user_input no_value ''it is a secret'' jane_said =
     (Inr ''What is your last name?'', jane_said)"
proof -
  have t: "fst (get_next_missing_field jane_said) = Inr (Some ''last_name'')"
    by (rule get_next_jane_said)
  have e: "\<not> truthy (extract_details no_value ''last_name'' ''it is a secret'')"
    by (simp add: extract_no_value truthy_def)
  have p: "fst (process_user_input echo ''Jane'' init) = Inr ''What is your last name?''"
    by code_simp
  from reprompt_when_nothing_extracted [OF t e] t e p show ?thesis
    by (simp add: question_last_name)
qed

text \<open>
  C9. When the call of the extraction service raises, \<open>extract_details\<close> returns \<open>None\<close>
  and \<open>process_user_input\<close> answers with the question of the outstanding field: the result
  is a text, not an exception, and the object is unchanged.
\<close>

theorem extraction_failure_reprompts:
  assumes "fst (get_next_missing_field self) = Inr (Some target)"
    and "openai target user_input = ApiRaises"
  shows "extract_details openai target user_input = PyNone \<and>
         process_user_input openai user_input self = (Inr (generate_question target), self)"
  using assms by (simp add: extract_details_raises process_user_input_falsy truthy_def)

text \<open>C9 at an input: the first turn of a session while the service is down.\<close>

theorem extraction_failure_reprompts_witness:
  "fst (get_next_missing_field init) = Inr (Some ''first_name'') \<and>
   service_down ''first_name'' ''Jane'' = ApiRaises \<and>
   process_user_input service_down ''Jane'' init =
     (Inr ''Could you please tell me your first name?'', init)"
proof -
  have t: "fst (get_next_missing_field init) = Inr (Some ''first_name'')"
    by (rule get_next_init)
  have e: "service_down ''first_name'' ''Jane'' = ApiRaises"
    by (simp add: service_down_def)
  from extraction_failure_reprompts [of init "''first_name''" service_down "''Jane''"] t e
  show ?thesis
    by (simp add: question_first_name)
qed

section \<open>The two name fields\<close>

text \<open>
  C5. With \<open>first_name\<close> outstanding and a value extracted, the text \<open>Jane Doe\<close> fills
  \<open>first_name\<close> with \<open>Jane\<close> and \<open>last_name\<close> with \<open>Doe\<close> in one call, no other field
  changes, and the index goes from 0 to 2.
\<close>

theorem jane_doe_fills_both_names:
  assumes "fst (get_next_missing_field self) = Inr (Some ''first_name'')"
    and "truthy (extract_details openai ''first_name'' ''Jane Doe'')"
  shows "fields_dict (snd (process_user_input openai ''Jane Doe'' self)) =
           (fields_dict self)(''first_name'' \<mapsto> PyStr ''Jane'', ''last_name'' \<mapsto> PyStr ''Doe'') \<and>
         current_index (snd (process_user_input openai ''Jane Doe'' self)) = current_index self + 2 \<and>
         current_index self = 0"
  using assms target_first_name_index [OF assms(1)]
  by (simp add: process_user_input_name split_jane_doe)

text \<open>C5 at an input: the first turn of a fresh session.\<close>

theorem jane_doe_fills_both_names_witness:
  "fst (get_next_missing_field init) = Inr (Some ''first_name'') \<and>
   truthy (extract_details echo ''first_name'' ''Jane Doe'') \<and>
   fields_dict (snd (process_user_input echo ''Jane Doe'' init)) ''first_name'' =
     Some (PyStr ''Jane'') \<and>
   fields_dict (snd (process_user_input echo ''Jane Doe'' init)) ''last_name'' =
     Some (PyStr ''Doe'') \<and>
   current_index init = 0 \<and>
   current_index (snd (process_user_input echo ''Jane Doe'' init)) = 2"
proof -
  have t: "fst (get_next_missing_field init) = Inr (Some ''first_name'')"
    by (rule get_next_init)
  have e: "truthy (extract_details echo ''first_name'' ''Jane Doe'')"
    by (simp add: extract_echo_jane_doe truthy_def)
  from jane_doe_fills_both_names [OF t e] t e show ?thesis
    by simp
qed

text \<open>
  C6. In a session where \<open>first_name\<close> is outstanding and a value is extracted, the text
  \<open>Jane\<close> fills \<open>first_name\<close> and nothing else, the answer is the question for the last
  name, and the next scan returns \<open>last_name\<close>.
\<close>

theorem jane_fills_first_name_only:
  assumes "reachable self"
    and "fst (get_next_missing_field self) = Inr (Some ''first_name'')"
    and "truthy (extract_details openai ''first_name'' ''Jane'')"
  shows "process_user_input openai ''Jane'' self =
           (Inr (generate_question ''last_name''),
            self\<lparr>fields_dict := (fields_dict self)(''first_name'' \<mapsto> PyStr ''Jane''),
                  current_index := 1\<rparr>) \<and>
         fst (get_next_missing_field (snd (process_user_input openai ''Jane'' self))) =
           Inr (Some ''last_name'')"
proof -
  have inv: "session_inv self" using assms(1) by (rule reachable_session_inv)
  have z: "current_index self = 0" using assms(2) by (rule target_first_name_index)
  have "fields_dict self ''first_name'' = Some PyNone"
    using target_in_plan(2) [OF assms(2)] .
  with inv have l: "fields_dict self ''last_name'' = Some PyNone"
    by (auto simp: session_inv_def)
  let ?s = "self\<lparr>fields_dict := (fields_dict self)(''first_name'' \<mapsto> PyStr ''Jane''),
                  current_index := 1\<rparr>"
  have n: "fst (get_next_missing_field ?s) = Inr (Some ''last_name'')"
    using l by (simp add: get_next_fst get_next_at_last_name)
  have "process_user_input openai ''Jane'' self = process_next_field ?s"
    using assms(2,3) z by (simp add: process_user_input_name split_jane)
  with n show ?thesis by (simp add: process_next_field_cases)
qed

text \<open>C6 at an input: the first turn of a fresh session.\<close>

theorem jane_fills_first_name_only_witness:
  "reachable init \<and>
   fst (get_next_missing_field init) = Inr (Some ''first_name'') \<and>
   truthy (extract_details echo ''first_name'' ''Jane'') \<and>
   fst (process_user_input echo ''Jane'' init) = Inr ''What is your last name?'' \<and>
   fields_dict (snd (process_user_input echo ''Jane'' init)) ''first_name'' =
     Some (PyStr ''Jane'') \<and>
   fields_dict (snd (process_user_input echo ''Jane'' init)) ''last_name'' = Some PyNone \<and>
   fst (get_next_missing_field (snd (process_user_input echo ''Jane'' init))) =
     Inr (Some ''last_name'')"
proof -
  have t: "fst (get_next_missing_field init) = Inr (Some ''first_name'')"
    by (rule get_next_init)
  have e: "truthy (extract_details echo ''first_name'' ''Jane'')"
    by (simp add: extract_echo_jane truthy_def)
  have l: "fields_dict init ''last_name'' = Some PyNone"
    by (simp add: init_def init_fields_def)
  note w = jane_fills_first_name_only [OF reachable_init t e]
  have n: "fst (get_next_missing_field (snd (process_user_input echo ''Jane'' init))) =
     Inr (Some ''last_name'')"
    by (rule conjunct2 [OF w])
  have r: "fst (process_user_input echo ''Jane'' init) = Inr ''What is your last name?''"
    using conjunct1 [OF w] by (simp add: question_last_name)
  have f: "fields_dict (snd (process_user_input echo ''Jane'' init)) ''first_name'' =
     Some (PyStr ''Jane'')"
    using conjunct1 [OF w] by simp
  have g: "fields_dict (snd (process_user_input echo ''Jane'' init)) ''last_name'' = Some PyNone"
    using conjunct1 [OF w] l by simp
  from reachable_init t e r f g n show ?thesis by blast
qed

text \<open>
  C10. In a session where \<open>last_name\<close> is the outstanding field (so \<open>first_name\<close> was
  filled or skipped before) and a value is extracted, a text with at least one token
  overwrites \<open>first_name\<close> with its first token. If the text is that one token only,
  \<open>last_name\<close> stays \<open>None\<close> while the index goes from 1, the position of \<open>last_name\<close>,
  to 2, and the scan no longer returns \<open>last_name\<close>. A text without any token makes
  \<open>names[0]\<close> raise instead, as \<open>process_user_input_name\<close> shows.
\<close>

theorem last_name_turn_overwrites_first_name:
  assumes "reachable self"
    and "fst (get_next_missing_field self) = Inr (Some ''last_name'')"
    and "truthy (extract_details openai ''last_name'' user_input)"
    and "str_split user_input = token # others"
  shows "fields_dict (snd (process_user_input openai user_input self)) ''first_name'' =
           Some (PyStr token) \<and>
         (others = [] \<longrightarrow>
            fields_dict (snd (process_user_input openai user_input self)) ''last_name'' =
              Some PyNone \<and>
            current_index self = 1 \<and>
            current_index (snd (process_user_input openai user_input self)) = 2 \<and>
            fst (get_next_missing_field (snd (process_user_input openai user_input self))) \<noteq>
              Inr (Some ''last_name''))"
proof -
  have inv: "session_inv self" using assms(1) by (rule reachable_session_inv)
  have i: "current_index self = 1" using assms(2) inv by (rule target_last_name_index)
  have l: "fields_dict self ''last_name'' = Some PyNone"
    using target_in_plan(2) [OF assms(2)] .
  show ?thesis
  proof (cases others)
    case Nil
    with assms(2,3,4) i l show ?thesis
      by (simp add: process_user_input_name get_next_fst get_next_past_last_name)
  next
    case (Cons m ms)
    with assms(2,3,4) show ?thesis
      by (simp add: process_user_input_name)
  qed
qed

text \<open>
  C10 at an input: the applicant answered \<open>Jane\<close>, is asked for the last name and
  answers \<open>Doe\<close>.
\<close>

theorem last_name_turn_overwrites_first_name_witness:
  "reachable jane_said \<and>
   fields_dict jane_said ''first_name'' = Some (PyStr ''Jane'') \<and>
   fst (get_next_missing_field jane_said) = Inr (Some ''last_name'') \<and>
   truthy (extract_details echo ''last_name'' ''Doe'') \<and>
   str_split ''Doe'' = [''Doe''] \<and>
   fields_dict (snd (process_user_input echo ''Doe'' jane_said)) ''first_name'' =
     Some (PyStr ''Doe'') \<and>
   fields_dict (snd (process_user_input echo ''Doe'' jane_said)) ''last_name'' = Some PyNone \<and>
   current_index (snd (process_user_input echo ''Doe'' jane_said)) = 2"
proof -
  have e: "truthy (extract_details echo ''last_name'' ''Doe'')"
    by (simp add: extract_echo_doe truthy_def)
  from last_name_turn_overwrites_first_name
    [OF reachable_jane_said get_next_jane_said e split_doe]
    reachable_jane_said get_next_jane_said e split_doe jane_said_first_name
  show ?thesis by simp
qed

section \<open>The index\<close>

text \<open>
  C3 does not hold as stated: the index also advances when no field of the plan is filled.
  On a fresh session, a session state by definition, one call of \<open>handle_commitments\<close>
  takes the index from 0 to 1 while the number of filled plan fields stays 0.
\<close>

theorem handle_commitments_advances_without_filling:
  "reachable init \<and>
   current_index init = 0 \<and>
   filled_plan_fields init = 0 \<and>
   current_index (snd (call_method (HandleCommitments ''car loan'') init)) = 1 \<and>
   filled_plan_fields (snd (call_method (HandleCommitments ''car loan'') init)) = 0"
proof -
  have "current_index init = 0 \<and>
   filled_plan_fields init = 0 \<and>
   current_index (snd (call_method (HandleCommitments ''car loan'') init)) = 1 \<and>
   filled_plan_fields (snd (call_method (HandleCommitments ''car loan'') init)) = 0"
    by code_simp
  with reachable_init show ?thesis by simp
qed

text \<open>
  C3, amended. No call of a public method lowers \<open>current_index\<close>. In a session,
  \<open>handle_commitments\<close> and \<open>handle_uploaded_files\<close> raise it by exactly one and fill no
  field of the plan. A turn of \<open>process_user_input\<close> that extracts no value leaves the
  object unchanged. A turn that extracts a value for an outstanding field other than the
  two name fields stores it there: one more plan field is filled and the index is one
  higher. With \<open>first_name\<close> outstanding, a text of one token fills \<open>first_name\<close> and the
  index is one higher; in a session, a text of two or more tokens fills \<open>first_name\<close>
  and \<open>last_name\<close>, two more plan fields are filled and the index is two higher. Turns
  with \<open>last_name\<close> outstanding are not part of this statement.
\<close>

theorem current_index_advances_with_filled_fields:
  "current_index self \<le> current_index (snd (call_method c self)) \<and>
   (reachable self \<longrightarrow>
      current_index (snd (handle_commitments user_input self)) = current_index self + 1 \<and>
      filled_plan_fields (snd (handle_commitments user_input self)) = filled_plan_fields self \<and>
      current_index (snd (handle_uploaded_files key user_input self)) = current_index self + 1 \<and>
      filled_plan_fields (snd (handle_uploaded_files key user_input self)) =
        filled_plan_fields self) \<and>
   (fst (get_next_missing_field self) = Inr (Some target) \<and>
    \<not> truthy (extract_details openai target user_input) \<longrightarrow>
      snd (process_user_input openai user_input self) = self) \<and>
   (fst (get_next_missing_field self) = Inr (Some target) \<and>
    truthy (extract_details openai target user_input) \<and>
    target \<notin> set [''first_name'', ''last_name''] \<longrightarrow>
      current_index (snd (process_user_input openai user_input self)) = current_index self + 1 \<and>
      filled_plan_fields (snd (process_user_input openai user_input self)) =
        filled_plan_fields self + 1 \<and>
      fields_dict (snd (process_user_input openai user_input self)) =
        (fields_dict self)(target \<mapsto> extract_details openai target user_input)) \<and>
   (fst (get_next_missing_field self) = Inr (Some ''first_name'') \<and>
    truthy (extract_details openai ''first_name'' user_input) \<and>
    str_split user_input = [first_token] \<longrightarrow>
      current_index (snd (process_user_input openai user_input self)) = current_index self + 1 \<and>
      filled_plan_fields (snd (process_user_input openai user_input self)) =
        filled_plan_fields self + 1 \<and>
      fields_dict (snd (process_user_input openai user_input self)) =
        (fields_dict self)(''first_name'' \<mapsto> PyStr first_token)) \<and>
   (reachable self \<and>
    fst (get_next_missing_field self) = Inr (Some ''first_name'') \<and>
    truthy (extract_details openai ''first_name'' user_input) \<and>
    str_split user_input = first_token # second_token # more_tokens \<longrightarrow>
      current_index (snd (process_user_input openai user_input self)) = current_index self + 2 \<and>
      filled_plan_fields (snd (process_user_input openai user_input self)) =
        filled_plan_fields self + 2 \<and>
      fields_dict (snd (process_user_input openai user_input self)) =
        (fields_dict self)(''first_name'' \<mapsto> PyStr first_token,
                           ''last_name'' \<mapsto> PyStr (str_join '' '' (second_token # more_tokens))))"
proof (intro conjI impI)
  show "current_index self \<le> current_index (snd (call_method c self))"
    by (rule index_call_method)
next
  assume "reachable self"
  then have inv: "session_inv self" by (rule reachable_session_inv)
  show "current_index (snd (handle_commitments user_input self)) = current_index self + 1"
    using inv by (rule index_handle_commitments_in_session)
  show "current_index (snd (handle_uploaded_files key user_input self)) = current_index self + 1"
    using inv by (rule index_handle_uploaded_files_in_session)
  show "filled_plan_fields (snd (handle_commitments user_input self)) = filled_plan_fields self"
    by (rule filled_handle_commitments)
  show "filled_plan_fields (snd (handle_uploaded_files key user_input self)) =
        filled_plan_fields self"
    by (rule filled_handle_uploaded_files)
next
  assume "fst (get_next_missing_field self) = Inr (Some target) \<and>
    \<not> truthy (extract_details openai target user_input)"
  then show "snd (process_user_input openai user_input self) = self"
    by (simp add: process_user_input_falsy)
next
  assume a: "fst (get_next_missing_field self) = Inr (Some target) \<and>
    truthy (extract_details openai target user_input) \<and>
    target \<notin> set [''first_name'', ''last_name'']"
  then have t: "fst (get_next_missing_field self) = Inr (Some target)" by simp
  from a have p: "process_user_input openai user_input self =
           process_next_field
             (self\<lparr>fields_dict := (fields_dict self)
                     (target \<mapsto> extract_details openai target user_input),
                   current_index := current_index self + 1\<rparr>)"
    by (intro process_user_input_default) simp_all
  show "current_index (snd (process_user_input openai user_input self)) = current_index self + 1"
    by (simp add: p)
  show "fields_dict (snd (process_user_input openai user_input self)) =
        (fields_dict self)(target \<mapsto> extract_details openai target user_input)"
    by (simp add: p)
  from a have "extract_details openai target user_input \<noteq> PyNone"
    by (simp add: truthy_not_None)
  with target_in_plan [OF t]
  show "filled_plan_fields (snd (process_user_input openai user_input self)) =
        filled_plan_fields self + 1"
    by (simp add: p filled_fill)
next
  assume a: "fst (get_next_missing_field self) = Inr (Some ''first_name'') \<and>
    truthy (extract_details openai ''first_name'' user_input) \<and>
    str_split user_input = [first_token]"
  then have t: "fst (get_next_missing_field self) = Inr (Some ''first_name'')" by simp
  from a have p: "process_user_input openai user_input self =
           process_next_field
             (self\<lparr>fields_dict := (fields_dict self)(''first_name'' \<mapsto> PyStr first_token),
                   current_index := current_index self + 1\<rparr>)"
    by (simp add: process_user_input_name)
  show "current_index (snd (process_user_input openai user_input self)) = current_index self + 1"
    by (simp add: p)
  show "fields_dict (snd (process_user_input openai user_input self)) =
        (fields_dict self)(''first_name'' \<mapsto> PyStr first_token)"
    by (simp add: p)
  from target_in_plan [OF t]
  show "filled_plan_fields (snd (process_user_input openai user_input self)) =
        filled_plan_fields self + 1"
    by (simp add: p filled_fill)
next
  assume a: "reachable self \<and>
    fst (get_next_missing_field self) = Inr (Some ''first_name'') \<and>
    truthy (extract_details openai ''first_name'' user_input) \<and>
    str_split user_input = first_token # second_token # more_tokens"
  then have t: "fst (get_next_missing_field self) = Inr (Some ''first_name'')" by simp
  from a have inv: "session_inv self" by (simp add: reachable_session_inv)
  have f: "fields_dict self ''first_name'' = Some PyNone"
    using target_in_plan(2) [OF t] .
  with inv have l: "fields_dict self ''last_name'' = Some PyNone"
    by (auto simp: session_inv_def)
  from a have p: "process_user_input openai user_input self =
           process_next_field
             (self\<lparr>fields_dict := (fields_dict self)
                     (''first_name'' \<mapsto> PyStr first_token,
                      ''last_name'' \<mapsto> PyStr (str_join '' '' (second_token # more_tokens))),
                   current_index := current_index self + 2\<rparr>)"
    by (simp add: process_user_input_name)
  show "current_index (snd (process_user_input openai user_input self)) = current_index self + 2"
    by (simp add: p)
  show "fields_dict (snd (process_user_input openai user_input self)) =
        (fields_dict self)(''first_name'' \<mapsto> PyStr first_token,
                           ''last_name'' \<mapsto> PyStr (str_join '' '' (second_token # more_tokens)))"
    by (simp add: p)
  show "filled_plan_fields (snd (process_user_input openai user_input self)) =
        filled_plan_fields self + 2"
    using f l by (simp add: p filled_fill_both)
qed


text \<open>
  C3, amended, at inputs: on a fresh session a commitment, an upload, a turn without a
  value, \<open>Jane Doe\<close> and \<open>Jane\<close>; after \<open>Jane Doe\<close>, the telephone number.
\<close>

theorem current_index_advances_with_filled_fields_witness:
  "reachable init \<and>
   fst (get_next_missing_field init) = Inr (Some ''first_name'') \<and>
   current_index init \<le> current_index (snd (call_method (HandleCommitments ''car loan'') init)) \<and>
   current_index (snd (handle_commitments ''car loan'' init)) = current_index init + 1 \<and>
   filled_plan_fields (snd (handle_commitments ''car loan'' init)) = filled_plan_fields init \<and>
   current_index (snd (handle_uploaded_files ''uploaded_ids'' ''car loan'' init)) =
     current_index init + 1 \<and>
   filled_plan_fields (snd (handle_uploaded_files ''uploaded_ids'' ''car loan'' init)) =
     filled_plan_fields init \<and>
   \<not> truthy (extract_details no_value ''first_name'' ''Jane Doe'') \<and>
   snd (process_user_input no_value ''Jane Doe'' init) = init \<and>
   truthy (extract_details echo ''first_name'' ''Jane Doe'') \<and>
   str_split ''Jane Doe'' = [''Jane'', ''Doe''] \<and>
   current_index (snd (process_user_input echo ''Jane Doe'' init)) = current_index init + 2 \<and>
   filled_plan_fields (snd (process_user_input echo ''Jane Doe'' init)) =
     filled_plan_fields init + 2 \<and>
   truthy (extract_details echo ''first_name'' ''Jane'') \<and>
   str_split ''Jane'' = [''Jane''] \<and>
   current_index (snd (process_user_input echo ''Jane'' init)) = current_index init + 1 \<and>
   filled_plan_fields (snd (process_user_input echo ''Jane'' init)) = filled_plan_fields init + 1 \<and>
   reachable jane_doe_said \<and>
   fst (get_next_missing_field jane_doe_said) = Inr (Some ''telephone'') \<and>
   truthy (extract_details echo ''telephone'' ''5550100'') \<and>
   ''telephone'' \<notin> set [''first_name'', ''last_name''] \<and>
   current_index (snd (process_user_input echo ''5550100'' jane_doe_said)) =
     current_index jane_doe_said + 1 \<and>
   filled_plan_fields (snd (process_user_input echo ''5550100'' jane_doe_said)) =
     filled_plan_fields jane_doe_said + 1"
proof -
  have e0: "\<not> truthy (extract_details no_value ''first_name'' ''Jane Doe'')"
    by (simp add: extract_no_value truthy_def)
  have e2: "truthy (extract_details echo ''first_name'' ''Jane Doe'')"
    by (simp add: extract_echo_jane_doe truthy_def)
  have e1: "truthy (extract_details echo ''first_name'' ''Jane'')"
    by (simp add: extract_echo_jane truthy_def)
  have e3: "truthy (extract_details echo ''telephone'' ''5550100'')"
    by (simp add: extract_echo_telephone truthy_def)
  have n3: "''telephone'' \<notin> set [''first_name'', ''last_name'']"
    by simp
  have h: "current_index init \<le> current_index (snd (call_method (HandleCommitments ''car loan'') init)) \<and>
     current_index (snd (handle_commitments ''car loan'' init)) = current_index init + 1 \<and>
     filled_plan_fields (snd (handle_commitments ''car loan'' init)) = filled_plan_fields init \<and>
     current_index (snd (handle_uploaded_files ''uploaded_ids'' ''car loan'' init)) =
       current_index init + 1 \<and>
     filled_plan_fields (snd (handle_uploaded_files ''uploaded_ids'' ''car loan'' init)) =
       filled_plan_fields init \<and>
     snd (process_user_input no_value ''Jane Doe'' init) = init"
    using current_index_advances_with_filled_fields
      [where self = init and c = "HandleCommitments ''car loan''" and user_input = "''Jane Doe''"
         and key = "''uploaded_ids''" and target = "''first_name''" and openai = no_value]
      current_index_advances_with_filled_fields
      [where self = init and user_input = "''car loan''" and key = "''uploaded_ids''"]
      reachable_init get_next_init e0
    by simp
  have two: "current_index (snd (process_user_input echo ''Jane Doe'' init)) = current_index init + 2 \<and>
     filled_plan_fields (snd (process_user_input echo ''Jane Doe'' init)) =
       filled_plan_fields init + 2"
    using current_index_advances_with_filled_fields
      [where self = init and user_input = "''Jane Doe''" and openai = echo
         and first_token = "''Jane''" and second_token = "''Doe''" and more_tokens = "[]"]
      reachable_init get_next_init e2 split_jane_doe
    by simp
  have one: "current_index (snd (process_user_input echo ''Jane'' init)) = current_index init + 1 \<and>
     filled_plan_fields (snd (process_user_input echo ''Jane'' init)) = filled_plan_fields init + 1"
    using current_index_advances_with_filled_fields
      [where self = init and user_input = "''Jane''" and openai = echo and first_token = "''Jane''"]
      get_next_init e1 split_jane
    by simp
  have other: "current_index (snd (process_user_input echo ''5550100'' jane_doe_said)) =
       current_index jane_doe_said + 1 \<and>
     filled_plan_fields (snd (process_user_input echo ''5550100'' jane_doe_said)) =
       filled_plan_fields jane_doe_said + 1"
    using current_index_advances_with_filled_fields
      [where self = jane_doe_said and user_input = "''5550100''" and openai = echo
         and target = "''telephone''"]
      get_next_jane_doe_said e3
    by simp
  from reachable_init get_next_init h e0 e2 split_jane_doe two e1 split_jane one
    reachable_jane_doe_said get_next_jane_doe_said e3 n3 other
  show ?thesis by blast
qed

section \<open>After completion\<close>

text \<open>
  C7. Once every field of \<open>conversation_order\<close> is filled, a call of
  \<open>process_user_input\<close> calls \<open>save_to_csv\<close> once more, with the same fields, and answers
  with the completion message; so does every later call: after any number of further turns
  the trace of \<open>save_to_csv\<close> has grown by that number of entries.
\<close>

theorem completed_session_saves_on_every_call:
  assumes "plan_filled self"
  shows "process_user_input openai user_input self =
           (Inr completed, self\<lparr>csv_calls := csv_calls self @ [fields_dict self]\<rparr>) \<and>
         calls (map (\<lambda>(openai, user_input). ProcessUserInput openai user_input) turns) self =
           self\<lparr>csv_calls := csv_calls self @ replicate (length turns) (fields_dict self)\<rparr>"
  using assms calls_after_completion [OF assms, of turns]
  by (simp add: process_user_input_done plan_filled_done save_to_csv_def)

text \<open>C7 at an input: a session in which every question was answered, then three more turns.\<close>

theorem completed_session_saves_on_every_call_witness:
  "plan_filled all_answered \<and>
   fst (process_user_input echo ''hello'' all_answered) = Inr completed \<and>
   length (csv_calls (snd (process_user_input echo ''hello'' all_answered))) =
     length (csv_calls all_answered) + 1 \<and>
   length (csv_calls (calls (map (\<lambda>(openai, user_input). ProcessUserInput openai user_input)
                       [(echo, ''hello''), (service_down, ''again''), (no_value, ''bye'')])
                     all_answered)) = length (csv_calls all_answered) + 3"
proof -
  note w = completed_session_saves_on_every_call
    [OF plan_filled_all_answered, of echo "''hello''"
      "[(echo, ''hello''), (service_down, ''again''), (no_value, ''bye'')]"]
  have a: "fst (process_user_input echo ''hello'' all_answered) = Inr completed"
    using conjunct1 [OF w] by simp
  have b: "length (csv_calls (snd (process_user_input echo ''hello'' all_answered))) =
     length (csv_calls all_answered) + 1"
    using conjunct1 [OF w] by simp
  have c: "length (csv_calls (calls (map (\<lambda>(openai, user_input). ProcessUserInput openai user_input)
                       [(echo, ''hello''), (service_down, ''again''), (no_value, ''bye'')])
                     all_answered)) = length (csv_calls all_answered) + 3"
    by (subst conjunct2 [OF w]) simp
  from plan_filled_all_answered a b c show ?thesis by blast
qed

section \<open>The repeatable fields\<close>

text \<open>
  C2 does not hold as stated: on a fresh session the scan returns \<open>first_name\<close>, and after
  one call of \<open>handle_commitments\<close> it returns \<open>last_name\<close>, although \<open>first_name\<close> is
  still \<open>None\<close>.
\<close>

theorem handle_commitments_skips_first_name:
  "fst (get_next_missing_field init) = Inr (Some ''first_name'') \<and>
   fst (get_next_missing_field (snd (handle_commitments ''car loan'' init))) =
     Inr (Some ''last_name'')"
  by code_simp

text \<open>
  C2, amended. \<open>handle_commitments\<close> and \<open>handle_uploaded_files\<close> change no field of
  \<open>conversation_order\<close>. In a session each of them raises \<open>current_index\<close> by exactly
  one, so the scan after the call starts one position later than before: it returns the
  first field of the plan that is \<open>None\<close> from position \<open>current_index + 1\<close> on.
\<close>

theorem repeatable_handlers_skip_one_position:
  "(field \<in> set conversation_order \<longrightarrow>
      fields_dict (snd (handle_commitments user_input self)) field = fields_dict self field \<and>
      fields_dict (snd (handle_uploaded_files key user_input self)) field =
        fields_dict self field) \<and>
   (reachable self \<longrightarrow>
      current_index (snd (handle_commitments user_input self)) = current_index self + 1 \<and>
      current_index (snd (handle_uploaded_files key user_input self)) = current_index self + 1 \<and>
      fst (get_next_missing_field (snd (handle_commitments user_input self))) =
        scan_fields (fields_dict self) (drop (current_index self + 1) conversation_order) \<and>
      fst (get_next_missing_field (snd (handle_uploaded_files key user_input self))) =
        scan_fields (fields_dict self) (drop (current_index self + 1) conversation_order))"
proof (intro conjI impI)
  assume "field \<in> set conversation_order"
  then show "fields_dict (snd (handle_commitments user_input self)) field = fields_dict self field"
    and "fields_dict (snd (handle_uploaded_files key user_input self)) field =
        fields_dict self field"
    by (rule handle_commitments_plan_fields, rule handle_uploaded_files_plan_fields)
next
  assume "reachable self"
  then have inv: "session_inv self" by (rule reachable_session_inv)
  from handle_commitments_in_session [OF inv, of user_input]
  obtain fs where fs: "\<forall>f \<in> set conversation_order. fs f = fields_dict self f"
    and hc: "handle_commitments user_input self =
           process_next_field
             (self\<lparr>fields_dict := fs, current_index := current_index self + 1\<rparr>)"
    by blast
  from handle_uploaded_files_in_session [OF inv, of key user_input]
  obtain gs where gs: "\<forall>f \<in> set conversation_order. gs f = fields_dict self f"
    and hu: "handle_uploaded_files key user_input self =
           process_next_field
             (self\<lparr>fields_dict := gs, current_index := current_index self + 1\<rparr>)"
    by blast
  show "current_index (snd (handle_commitments user_input self)) = current_index self + 1"
    by (simp add: hc)
  show "current_index (snd (handle_uploaded_files key user_input self)) = current_index self + 1"
    by (simp add: hu)
  show "fst (get_next_missing_field (snd (handle_commitments user_input self))) =
        scan_fields (fields_dict self) (drop (current_index self + 1) conversation_order)"
    unfolding hc using fs by (rule next_after_skip)
  show "fst (get_next_missing_field (snd (handle_uploaded_files key user_input self))) =
        scan_fields (fields_dict self) (drop (current_index self + 1) conversation_order)"
    unfolding hu using gs by (rule next_after_skip)
qed

text \<open>C2, amended, at an input: a commitment and an upload on a fresh session.\<close>

theorem repeatable_handlers_skip_one_position_witness:
  "''first_name'' \<in> set conversation_order \<and> reachable init \<and>
   fields_dict (snd (handle_commitments ''car loan'' init)) ''first_name'' = Some PyNone \<and>
   fields_dict (snd (handle_uploaded_files ''uploaded_ids'' ''car loan'' init)) ''first_name'' =
     Some PyNone \<and>
   current_index (snd (handle_commitments ''car loan'' init)) = 1 \<and>
   current_index (snd (handle_uploaded_files ''uploaded_ids'' ''car loan'' init)) = 1 \<and>
   fst (get_next_missing_field (snd (handle_uploaded_files ''uploaded_ids'' ''car loan'' init))) =
     Inr (Some ''last_name'')"
proof -
  have m: "''first_name'' \<in> set conversation_order"
    by (simp add: conversation_order_def)
  have f: "fields_dict init ''first_name'' = Some PyNone" "current_index init = 0"
    by (simp_all add: init_def init_fields_def)
  have l: "fields_dict init ''last_name'' = Some PyNone"
    by (simp add: init_def init_fields_def)
  from repeatable_handlers_skip_one_position
    [of "''first_name''" "''car loan''" init "''uploaded_ids''"] m reachable_init f
    get_next_at_last_name [of "fields_dict init", OF l]
  show ?thesis by simp
qed

section \<open>Completion with a field left out\<close>

text \<open>
  C1 fails on the code. The applicant answers \<open>Jane\<close> to the first question, \<open>Doe\<close> to
  \<open>What is your last name?\<close>, and then every other question. The name branch of
  \<open>process_user_input\<close> stores \<open>Doe\<close> in \<open>first_name\<close>, leaves \<open>last_name\<close> at \<open>None\<close> and
  moves the index past it. The last turn answers with the completion message and
  \<open>save_to_csv\<close> is called with a row whose \<open>last_name\<close> is \<open>None\<close>.
\<close>

theorem completion_with_last_name_absent:
  "(case call_method (ProcessUserInput echo ''yes'')
           (calls (ProcessUserInput echo ''Jane'' # ProcessUserInput echo ''Doe'' # other_answers)
              init) of
      (response, self) \<Rightarrow>
        response = Inr completed \<and>
        fields_dict self ''first_name'' = Some (PyStr ''Doe'') \<and>
        fields_dict self ''last_name'' = Some PyNone \<and>
        \<not> plan_filled self \<and>
        map (\<lambda>row. row ''last_name'') (csv_calls self) = [Some PyNone])"
  by code_simp

end
